theory Spec2Isabelle
  imports Main "HOL-Library.AList" "HOL-Library.Char_ord" "HOL-Library.List_Lexorder"
begin

section \<open>JavaScript values and objects\<close>

text \<open>
  The cache module of ferry.fyi (the library for the WSF APIs, imported by the server as
  \<^verbatim>\<open>./lib/wsf\<close>) wraps three upstream APIs and keeps what it fetched in plain
  JavaScript objects. This theory embeds its state and its functions.

  \<^item> The upstream, lodash, luxon and the \<^verbatim>\<open>Crossing\<close> model are not part of the module,
    nor are \<^verbatim>\<open>wsfDateToTimestamp\<close>, \<^verbatim>\<open>getToday\<close> and \<^verbatim>\<open>getCameras\<close>. An upstream
    answer is a parameter of the function that requests it. Its dates are taken after
    \<^verbatim>\<open>wsfDateToTimestamp\<close>: epoch seconds as a number (the module passes them to
    \<^verbatim>\<open>DateTime.fromSeconds\<close> and subtracts them), or \<^verbatim>\<open>null\<close>.
  \<^item> The wall clock \<^verbatim>\<open>DateTime.local()\<close> is a parameter \<open>now\<close>, in milliseconds.
  \<^item> Numbers are integers: terminal and vessel ids, epoch seconds, space counts.
  \<^item> A loop over an object visits its entries in the order of the list that models it,
    which is the order in which the keys were first set.

  A property value is one of the following; \<open>JDate ms\<close> is a luxon \<^verbatim>\<open>DateTime\<close> at
  \<open>ms\<close> milliseconds after the epoch.
\<close>

datatype jsval =
    JUndefined
  | JNull
  | JBool bool
  | JNum int
  | JStr string
  | JDate int
  | JObj "(string \<times> jsval) list"
  | JArr "jsval list"

text \<open>An object is its list of own properties; a missing property reads \<open>undefined\<close>.\<close>

type_synonym jsobj = "(string \<times> jsval) list"

definition getProp :: "jsobj \<Rightarrow> string \<Rightarrow> jsval" where
  "getProp obj k = (case map_of obj k of None \<Rightarrow> JUndefined | Some v \<Rightarrow> v)"

text \<open>\<^verbatim>\<open>_.has(object, key)\<close> on a direct key.\<close>

definition has :: "(string \<times> 'a) list \<Rightarrow> string \<Rightarrow> bool" where
  "has obj k = (map_of obj k \<noteq> None)"

text \<open>\<^verbatim>\<open>_.assign(object, source)\<close>: every own property of the source overwrites.\<close>

definition assign :: "jsobj \<Rightarrow> jsobj \<Rightarrow> jsobj" where
  "assign obj source = fold (\<lambda>(k, v) acc. AList.update k v acc) source obj"

text \<open>Truthiness, as \<^verbatim>\<open>if (x)\<close>, \<^verbatim>\<open>!x\<close> and \<^verbatim>\<open>x && y\<close> read it.\<close>

fun truthy :: "jsval \<Rightarrow> bool" where
  "truthy JUndefined = False"
| "truthy JNull = False"
| "truthy (JBool b) = b"
| "truthy (JNum n) = (n \<noteq> 0)"
| "truthy (JStr s) = (s \<noteq> [])"
| "truthy (JDate _) = True"
| "truthy (JObj _) = True"
| "truthy (JArr _) = True"

text \<open>
  Strict equality \<^verbatim>\<open>===\<close> on primitives: equal type and equal value. Objects, arrays and
  dates compare by identity, which a value does not carry; none is ever compared here, and
  the model answers \<open>False\<close> for them.
\<close>

fun strictEq :: "jsval \<Rightarrow> jsval \<Rightarrow> bool" where
  "strictEq JUndefined JUndefined = True"
| "strictEq JNull JNull = True"
| "strictEq (JBool a) (JBool b) = (a = b)"
| "strictEq (JNum a) (JNum b) = (a = b)"
| "strictEq (JStr a) (JStr b) = (a = b)"
| "strictEq _ _ = False"

text \<open>
  \<^verbatim>\<open>_.indexOf(array, value)\<close> scans from index 0 with \<^verbatim>\<open>===\<close> and answers \<open>-1\<close> when
  nothing matches; \<^verbatim>\<open>_.includes(array, value)\<close> is \<^verbatim>\<open>indexOf > -1\<close>.
\<close>

fun indexOfFrom :: "int \<Rightarrow> jsval list \<Rightarrow> jsval \<Rightarrow> int" where
  "indexOfFrom i [] v = -1"
| "indexOfFrom i (x # xs) v = (if strictEq x v then i else indexOfFrom (i + 1) xs v)"

definition indexOf :: "jsval list \<Rightarrow> jsval \<Rightarrow> int" where
  "indexOf xs v = indexOfFrom 0 xs v"

definition includesVal :: "jsval list \<Rightarrow> jsval \<Rightarrow> bool" where
  "includesVal xs v = (indexOf xs v > -1)"

text \<open>\<^verbatim>\<open>array[i]\<close>: \<open>undefined\<close> outside the array, also for a negative index.\<close>

definition elemAt :: "jsval list \<Rightarrow> int \<Rightarrow> jsval" where
  "elemAt xs i = (if 0 \<le> i \<and> i < int (length xs) then xs ! nat i else JUndefined)"

subsection \<open>Property keys\<close>

text \<open>
  Object keys are strings. A number used as a key is converted by \<^verbatim>\<open>ToString\<close>: the
  decimal digits, with a leading minus sign for a negative integer.
\<close>

definition digitChar :: "nat \<Rightarrow> char" where
  "digitChar d =
     (if d = 0 then CHR ''0'' else if d = 1 then CHR ''1'' else if d = 2 then CHR ''2''
      else if d = 3 then CHR ''3'' else if d = 4 then CHR ''4'' else if d = 5 then CHR ''5''
      else if d = 6 then CHR ''6'' else if d = 7 then CHR ''7'' else if d = 8 then CHR ''8''
      else CHR ''9'')"

function showNat :: "nat \<Rightarrow> string" where
  "showNat n = (if n < 10 then [digitChar n] else showNat (n div 10) @ [digitChar (n mod 10)])"
  by pat_completeness auto
termination
  by (relation "measure id") auto

declare showNat.simps [simp del]

definition numKey :: "int \<Rightarrow> string" where
  "numKey n = (if n < 0 then CHR ''-'' # showNat (nat (- n)) else showNat (nat n))"

text \<open>
  \<^verbatim>\<open>toKey\<close> of lodash's path functions (\<^verbatim>\<open>_.get\<close>, \<^verbatim>\<open>_.setWith\<close>): a string is its own
  key, anything else is converted to a string (the module only uses numbers, strings and,
  in \<^verbatim>\<open>getPreviousCapacity\<close>, \<^verbatim>\<open>undefined\<close> as keys).
\<close>

fun toKey :: "jsval \<Rightarrow> string" where
  "toKey (JStr s) = s"
| "toKey (JNum n) = numKey n"
| "toKey JUndefined = ''undefined''"
| "toKey JNull = ''null''"
| "toKey (JBool b) = (if b then ''true'' else ''false'')"
| "toKey _ = ''[object Object]''"

text \<open>
  \<^verbatim>\<open>_.keys(object)\<close> lists the own keys (of \<open>undefined\<close>: none) and
  \<^verbatim>\<open>_.sortBy(strings)\<close> sorts them as strings, by code unit.
\<close>

definition keys :: "(string \<times> 'a) list \<Rightarrow> string list" where
  "keys obj = map fst obj"

definition sortBy :: "string list \<Rightarrow> string list" where
  "sortBy ks = sort ks"

section \<open>Capacity records\<close>

text \<open>
  The object built in \<^verbatim>\<open>recordCapacity\<close> and stored by the \<^verbatim>\<open>Crossing\<close> model: one row
  per (departureId, arrivalId, departureTime). \<open>departureDelta\<close> is \<open>None\<close> for
  \<^verbatim>\<open>null\<close>.
\<close>

record capacity =
  arrivalId :: int
  departureId :: int
  departureDelta :: "int option"
  departureTime :: int
  driveUpCapacity :: int
  hasDriveUp :: bool
  hasReservations :: bool
  isCancelled :: bool
  reservableCapacity :: int
  totalCapacity :: int

definition isEmpty :: "capacity \<Rightarrow> bool" where
  "isEmpty c = (driveUpCapacity c + reservableCapacity c = totalCapacity c)"

definition isFull :: "capacity \<Rightarrow> bool" where
  "isFull c = (driveUpCapacity c = 0 \<and> reservableCapacity c = 0)"

text \<open>
  \<^verbatim>\<open>hasPassed(capacity)\<close> returns \<open>undefined\<close> (\<open>None\<close>) without a capacity. Otherwise
  the departure time in seconds, moved by the delay when \<^verbatim>\<open>departureDelta\<close> is truthy
  (neither \<^verbatim>\<open>null\<close> nor 0), is compared with the wall clock \<open>now\<close>, which is in
  milliseconds.
\<close>

definition hasPassed :: "int \<Rightarrow> capacity option \<Rightarrow> bool option" where
  "hasPassed now capacity =
     (case capacity of
        None \<Rightarrow> None
      | Some c \<Rightarrow>
          (let estimatedTime =
                 (case departureDelta c of
                    None \<Rightarrow> departureTime c
                  | Some d \<Rightarrow> if d \<noteq> 0 then departureTime c + d else departureTime c)
           in Some (estimatedTime * 1000 < now)))"

section \<open>The cache store\<close>

text \<open>
  A vessel is a plain object that the long cycle and the short cycle both write with
  \<^verbatim>\<open>_.assign\<close>, and a crossing may hold the cached vessel object itself. Vessel objects
  therefore live in a store, \<open>vesselHeap\<close>, and are named by their address, the index
  in the store; allocation appends. The objects nested in a vessel (\<^verbatim>\<open>info\<close>,
  \<^verbatim>\<open>location\<close>) are built afresh by every writer and owned by one vessel, so they are
  kept as values inside it. Capacity objects are attached to crossings and changed in place
  by the supersession correction, so they live in a store of their own, \<open>capacityHeap\<close>.
\<close>

type_synonym addr = nat

definition deref :: "'a list \<Rightarrow> addr \<Rightarrow> 'a option" where
  "deref h a = (if a < length h then Some (h ! a) else None)"

text \<open>
  A crossing of the schedule. \<open>vessel\<close> is \<open>None\<close> for \<^verbatim>\<open>undefined\<close>, and
  \<open>capacity\<close> is \<open>None\<close> while no capacity object is attached; \<open>estimate\<close> is
  \<open>JUndefined\<close> until \<^verbatim>\<open>updateEstimates\<close> sets the property. The field
  \<open>hasPassedFlag\<close> is the property \<^verbatim>\<open>hasPassed\<close>.
\<close>

record crossing =
  allowsPassengers :: bool
  allowsVehicles :: bool
  hasPassedFlag :: bool
  time :: int
  vessel :: "addr option"
  capacity :: "addr option"
  estimate :: jsval

text \<open>The state of a promise kept in \<^verbatim>\<open>updateProgress\<close>.\<close>

datatype promise = Pending | Fulfilled | Rejected

text \<open>The upstream endpoints, named as the constants and functions that build their URLs.\<close>

datatype request =
    API_SCHEDULE_CACHE
  | apiScheduleMates
  | apiScheduleRoute string int
  | apiScheduleToday string int
  | API_VESSELS_CACHE
  | API_VESSELS_LOCATIONS
  | API_VESSELS_VERBOSE
  | API_TERMINALS_CACHE
  | API_TERMINALS_SPACE
  | API_TERMINALS_VERBOSE

text \<open>
  The module's local state, with the two collaborators it writes to: \<open>requests\<close> is
  the trace of upstream requests made so far, \<open>db\<close> the table of the \<^verbatim>\<open>Crossing\<close>
  model, one row per (arrivalId, departureId, departureTime). An object used as a
  dictionary is the list of its entries, keyed by strings as in JavaScript.
\<close>

type_synonym 'a dict = "(string \<times> 'a) list"

record state =
  cacheFlushDates :: jsobj
  updateProgress :: "promise dict"
  matesByTerminalId :: "int list dict"
  vesselsById :: "addr dict"
  vesselHeap :: "jsobj list"
  previousCapacityByTerminal :: "capacity dict dict dict"
  terminalsById :: "jsobj dict"
  scheduleByTerminal :: "crossing dict dict dict"
  capacityHeap :: "capacity list"
  db :: "((int \<times> int \<times> int) \<times> capacity) list"
  requests :: "request list"

text \<open>The state when the module is loaded: every promise is one that never settles.\<close>

definition initialState :: state where
  "initialState =
     \<lparr>cacheFlushDates = [(''schedule'', JNull), (''vessels'', JNull), (''terminals'', JNull)],
      updateProgress = [(''schedule'', Pending), (''vessels'', Pending), (''terminals'', Pending)],
      matesByTerminalId = [], vesselsById = [], vesselHeap = [],
      previousCapacityByTerminal = [], terminalsById = [], scheduleByTerminal = [],
      capacityHeap = [], db = [], requests = []\<rparr>"

text \<open>
  What stops a function before its end: a thrown \<^verbatim>\<open>TypeError\<close> (a property read or
  written on \<^verbatim>\<open>undefined\<close>), an awaited promise that is rejected, and an awaited
  promise that is still pending, on which the function stays suspended.
\<close>

datatype error = TypeError | AwaitRejected | AwaitPending

text \<open>
  A function that can throw returns \<open>Inl (e, s)\<close> when it threw \<open>e\<close> and left the
  state \<open>s\<close> behind, and \<open>Inr\<close> of its result otherwise.
\<close>

type_synonym 'a result = "(error \<times> state) + 'a"

subsection \<open>Vessels\<close>

definition initVessel :: "int \<Rightarrow> state \<Rightarrow> state" where
  "initVessel ident s =
     (if \<not> has (vesselsById s) (numKey ident)
      then s\<lparr>vesselsById := AList.update (numKey ident) (length (vesselHeap s)) (vesselsById s),
             vesselHeap := vesselHeap s @ [[]]\<rparr>
      else s)"

definition assignVessel :: "int \<Rightarrow> jsobj \<Rightarrow> state \<Rightarrow> state" where
  "assignVessel ident data s =
     (let s1 = initVessel ident s
      in case map_of (vesselsById s1) (numKey ident) of
           None \<Rightarrow> s1
         | Some a \<Rightarrow> s1\<lparr>vesselHeap := (vesselHeap s1)[a := assign (vesselHeap s1 ! a) data]\<rparr>)"

subsection \<open>Read accessors\<close>

text \<open>
  \<^verbatim>\<open>await p\<close> at the head of an accessor: while \<open>p\<close> is a pending promise the accessor
  is suspended, a rejected promise makes it throw, and on a fulfilled promise it goes on.
  A value that is not a promise, such as the \<^verbatim>\<open>undefined\<close> read from a property that
  \<^verbatim>\<open>updateProgress\<close> does not have, does not hold the accessor back.
\<close>

datatype 'a awaited = Suspended | Threw | Returned 'a

definition await :: "promise option \<Rightarrow> 'a \<Rightarrow> 'a awaited" where
  "await p rest =
     (case p of
        None \<Rightarrow> Returned rest
      | Some Pending \<Rightarrow> Suspended
      | Some Rejected \<Rightarrow> Threw
      | Some Fulfilled \<Rightarrow> Returned rest)"

definition getMates :: "state \<Rightarrow> int list dict awaited" where
  "getMates s = await (map_of (updateProgress s) ''schedule'') (matesByTerminalId s)"

text \<open>
  \<^verbatim>\<open>_.get(scheduleByTerminal, [departingId, arrivingId])\<close>, then the crossings of the
  route sorted by \<^verbatim>\<open>time\<close>.
\<close>

definition getRoute :: "'a dict dict dict \<Rightarrow> string \<Rightarrow> string \<Rightarrow> 'a dict option" where
  "getRoute m departingKey arrivingKey =
     (case map_of m departingKey of
        None \<Rightarrow> None
      | Some mates \<Rightarrow> map_of mates arrivingKey)"

definition getSchedule :: "jsval \<Rightarrow> jsval \<Rightarrow> state \<Rightarrow> crossing list awaited" where
  "getSchedule departingId arrivingId s =
     await (map_of (updateProgress s) ''schedule'')
       (case getRoute (scheduleByTerminal s) (toKey departingId) (toKey arrivingId) of
          None \<Rightarrow> []
        | Some schedule \<Rightarrow> sort_key time (map snd schedule))"

definition getVessels :: "state \<Rightarrow> addr dict awaited" where
  "getVessels s = await (map_of (updateProgress s) ''vesels'') (vesselsById s)"

text \<open>
  \<^verbatim>\<open>_.cloneDeep(vessel)\<close> makes a new object with the same properties (the nested
  objects are values and are copied with it); of \<^verbatim>\<open>undefined\<close> it is \<^verbatim>\<open>undefined\<close>.
\<close>

definition cloneDeep :: "addr option \<Rightarrow> state \<Rightarrow> addr option \<times> state" where
  "cloneDeep v s =
     (case v of
        None \<Rightarrow> (None, s)
      | Some a \<Rightarrow>
          (case deref (vesselHeap s) a of
             None \<Rightarrow> (None, s)
           | Some obj \<Rightarrow> (Some (length (vesselHeap s)), s\<lparr>vesselHeap := vesselHeap s @ [obj]\<rparr>)))"

text \<open>
  \<^verbatim>\<open>_.merge(object, source)\<close> for a source made of plain objects and primitives: a plain
  object is merged into the destination's property (into a new object when that property
  holds no object), any other value is assigned, except \<^verbatim>\<open>undefined\<close> over an existing
  property. The destination is changed in place and returned; an \<^verbatim>\<open>undefined\<close>
  destination stands for a new empty object.
\<close>

fun mergeInto :: "jsobj \<Rightarrow> jsobj \<Rightarrow> jsobj" where
  "mergeInto obj [] = obj"
| "mergeInto obj ((k, JObj src) # rest) =
     mergeInto
       (AList.update k
          (JObj (mergeInto (case getProp obj k of JObj dst \<Rightarrow> dst | _ \<Rightarrow> []) src)) obj)
       rest"
| "mergeInto obj ((k, v) # rest) =
     mergeInto (if v = JUndefined \<and> has obj k then obj else AList.update k v obj) rest"

definition merge :: "addr option \<Rightarrow> jsobj \<Rightarrow> state \<Rightarrow> addr \<times> state" where
  "merge object source s =
     (case object of
        None \<Rightarrow> (length (vesselHeap s), s\<lparr>vesselHeap := vesselHeap s @ [mergeInto [] source]\<rparr>)
      | Some a \<Rightarrow> (a, s\<lparr>vesselHeap := (vesselHeap s)[a := mergeInto (vesselHeap s ! a) source]\<rparr>))"

text \<open>
  The body of \<^verbatim>\<open>getVessel\<close> after its \<^verbatim>\<open>await\<close>. The result is the address of a
  vessel object, \<open>None\<close> for \<^verbatim>\<open>undefined\<close>. A string id is taken as one key.
\<close>

definition getVesselNow :: "jsval \<Rightarrow> bool \<Rightarrow> state \<Rightarrow> addr option \<times> state" where
  "getVesselNow ident resetDelay s =
     (let vessel = map_of (vesselsById s) (toKey ident)
      in if resetDelay
         then (let (copy, s1) = cloneDeep vessel s;
                   (merged, s2) = merge copy [(''departureDelta'', JNull)] s1
               in (Some merged, s2))
         else (vessel, s))"

definition getVessel :: "jsval \<Rightarrow> bool \<Rightarrow> state \<Rightarrow> (addr option \<times> state) awaited" where
  "getVessel ident resetDelay s =
     await (map_of (updateProgress s) ''vesels'') (getVesselNow ident resetDelay s)"

definition getTerminals :: "state \<Rightarrow> jsobj dict awaited" where
  "getTerminals s = await (map_of (updateProgress s) ''terminals'') (terminalsById s)"

definition getTerminal :: "jsval \<Rightarrow> state \<Rightarrow> jsobj option awaited" where
  "getTerminal ident s =
     await (map_of (updateProgress s) ''terminals'') (map_of (terminalsById s) (toKey ident))"

subsection \<open>Long cycle: vessels\<close>

text \<open>
  The cache-flush date is what \<^verbatim>\<open>wsfDateToTimestamp\<close> made of the upstream answer
  (that function is not part of the module), and \<open>vessels\<close> lists, for every vessel of
  the verbose answer, its \<^verbatim>\<open>VesselID\<close> and the object of static attributes that the
  callback passes to \<^verbatim>\<open>assignVessel\<close>. The verbose list is requested only past the gate.
\<close>

definition updateVessels :: "jsval \<Rightarrow> (int \<times> jsobj) list \<Rightarrow> state \<Rightarrow> state" where
  "updateVessels cacheFlushDate vessels s =
     (let s1 = s\<lparr>requests := requests s @ [API_VESSELS_CACHE]\<rparr>
      in if strictEq cacheFlushDate (getProp (cacheFlushDates s1) ''vessels'')
         then s1
         else
           (let s2 = s1\<lparr>cacheFlushDates :=
                          AList.update ''vessels'' cacheFlushDate (cacheFlushDates s1),
                        requests := requests s1 @ [API_VESSELS_VERBOSE]\<rparr>
            in fold (\<lambda>(ident, data) acc. assignVessel ident data acc) vessels s2))"

subsection \<open>Short cycle: timing\<close>

text \<open>
  One entry of the vessel locations answer. The three dates are the results of
  \<^verbatim>\<open>wsfDateToTimestamp\<close>: epoch seconds, or \<open>None\<close> for \<^verbatim>\<open>null\<close>.
\<close>

record vesselLocation =
  VesselID :: int
  LeftDock :: "int option"
  ScheduledDeparture :: "int option"
  Eta :: "int option"
  AtDock :: bool
  ArrivingTerminalID :: jsval
  DepartingTerminalID :: jsval
  Heading :: jsval
  Latitude :: jsval
  Longitude :: jsval
  Mmsi :: jsval
  Speed :: jsval
  EtaBasis :: jsval

definition timestamp :: "int option \<Rightarrow> jsval" where
  "timestamp t = (case t of None \<Rightarrow> JNull | Some n \<Rightarrow> JNum n)"

text \<open>
  \<^verbatim>\<open>_.get(vesselsById, id)\<close> as the object behind the address, and
  \<^verbatim>\<open>_.get(vesselsById, [id, key])\<close>, which is \<^verbatim>\<open>undefined\<close> without the vessel.
\<close>

definition cachedVessel :: "state \<Rightarrow> int \<Rightarrow> jsobj option" where
  "cachedVessel s ident =
     (case map_of (vesselsById s) (numKey ident) of
        None \<Rightarrow> None
      | Some a \<Rightarrow> deref (vesselHeap s) a)"

definition vesselProp :: "state \<Rightarrow> int \<Rightarrow> string \<Rightarrow> jsval" where
  "vesselProp s ident k =
     (case cachedVessel s ident of None \<Rightarrow> JUndefined | Some obj \<Rightarrow> getProp obj k)"

text \<open>
  The callback of \<^verbatim>\<open>recordTiming\<close> for one vessel at wall-clock time \<open>now\<close>.
  \<^verbatim>\<open>departureTime && departedTime\<close> holds when both are numbers other than 0. Reading
  \<^verbatim>\<open>previousVessel.isAtDock\<close> throws when the vessel is not cached; the read is only
  reached when the vessel is at dock. \<^verbatim>\<open>dockedTime\<close> starts as \<^verbatim>\<open>null\<close> in every
  call and is written with the other properties.
\<close>

definition timingCallback :: "int \<Rightarrow> vesselLocation \<Rightarrow> state \<Rightarrow> state result" where
  "timingCallback now v s =
     (let ident = VesselID v;
          departedTime = timestamp (LeftDock v);
          departureTime = timestamp (ScheduledDeparture v);
          estimatedArrivalTime = timestamp (Eta v);
          departureDelta =
            (if truthy departureTime \<and> truthy departedTime
             then (case (departedTime, departureTime) of
                     (JNum departed, JNum scheduled) \<Rightarrow> JNum (departed - scheduled)
                   | _ \<Rightarrow> JUndefined)
             else vesselProp s ident ''departureDelta'');
          isAtDock = AtDock v;
          previousVessel = cachedVessel s ident;
          stamped =
            (if isAtDock
             then (case previousVessel of
                     None \<Rightarrow> Inl TypeError
                   | Some previous \<Rightarrow>
                       Inr (if \<not> truthy (getProp previous ''isAtDock'')
                            then JDate now else JNull))
             else Inr JNull)
      in case stamped of
           Inl e \<Rightarrow> Inl (e, s)
         | Inr dockedTime \<Rightarrow>
             Inr (assignVessel ident
                 [(''arrivingTerminalId'', ArrivingTerminalID v),
                  (''departingTerminalId'', DepartingTerminalID v),
                  (''departedTime'', departedTime),
                  (''departureDelta'', departureDelta),
                  (''dockedTime'', dockedTime),
                  (''estimatedArrivalTime'', estimatedArrivalTime),
                  (''heading'', Heading v),
                  (''id'', JNum ident),
                  (''isAtDock'', JBool (AtDock v)),
                  (''location'',
                     JObj [(''latitude'', Latitude v), (''longitude'', Longitude v)]),
                  (''mmsi'', Mmsi v),
                  (''speed'', Speed v),
                  (''info'',
                     JObj (AList.update ''crossing'' (EtaBasis v)
                             (case vesselProp s ident ''info'' of
                                JObj fs \<Rightarrow> fs | _ \<Rightarrow> [])))]
                 s))"

text \<open>
  \<^verbatim>\<open>_.each\<close> runs the callback on the vessels in turn; a throw ends the update and
  leaves the vessels written so far.
\<close>

fun eachVessel :: "int \<Rightarrow> vesselLocation list \<Rightarrow> state \<Rightarrow> state result" where
  "eachVessel now [] s = Inr s"
| "eachVessel now (v # vs) s =
     (case timingCallback now v s of
        Inl e \<Rightarrow> Inl e
      | Inr s1 \<Rightarrow> eachVessel now vs s1)"

definition recordTiming :: "int \<Rightarrow> vesselLocation list \<Rightarrow> state \<Rightarrow> state result" where
  "recordTiming now vessels s =
     eachVessel now vessels (s\<lparr>requests := requests s @ [API_VESSELS_LOCATIONS]\<rparr>)"

subsection \<open>Nested dictionaries\<close>

text \<open>
  \<^verbatim>\<open>_.get(object, [k1, k2, k3])\<close> and \<^verbatim>\<open>_.setWith(object, path, value, Object)\<close>,
  which creates the objects missing on the path.
\<close>

definition getDeep :: "'a dict dict dict \<Rightarrow> string \<Rightarrow> string \<Rightarrow> string \<Rightarrow> 'a option" where
  "getDeep m k1 k2 k3 =
     (case getRoute m k1 k2 of None \<Rightarrow> None | Some schedule \<Rightarrow> map_of schedule k3)"

definition setRoute :: "'a dict dict dict \<Rightarrow> string \<Rightarrow> string \<Rightarrow> 'a dict \<Rightarrow> 'a dict dict dict" where
  "setRoute m k1 k2 v =
     AList.update k1
       (AList.update k2 v (case map_of m k1 of None \<Rightarrow> [] | Some mates \<Rightarrow> mates)) m"

definition setDeep :: "'a dict dict dict \<Rightarrow> string \<Rightarrow> string \<Rightarrow> string \<Rightarrow> 'a \<Rightarrow> 'a dict dict dict" where
  "setDeep m k1 k2 k3 v =
     setRoute m k1 k2
       (AList.update k3 v (case getRoute m k1 k2 of None \<Rightarrow> [] | Some schedule \<Rightarrow> schedule))"

subsection \<open>Persisted capacity\<close>

text \<open>
  \<^verbatim>\<open>saveCapacity\<close> looks for the row with the capacity's arrival terminal, departure
  terminal and departure time, and updates it or creates it. The model writes the row at
  the moment of the call, and a query returns the rows in the order of the table.
\<close>

definition saveCapacity :: "capacity \<Rightarrow> state \<Rightarrow> state" where
  "saveCapacity c s =
     s\<lparr>db := AList.update (arrivalId c, departureId c, departureTime c) c (db s)\<rparr>"

subsection \<open>Long cycle: schedule\<close>

definition initMates :: "string \<Rightarrow> state \<Rightarrow> state" where
  "initMates ident s =
     (if \<not> has (matesByTerminalId s) ident
      then s\<lparr>matesByTerminalId := AList.update ident [] (matesByTerminalId s)\<rparr>
      else s)"

definition addMate :: "int \<Rightarrow> int \<Rightarrow> state \<Rightarrow> state" where
  "addMate ident mateId s =
     (let s1 = initMates (numKey ident) s
      in s1\<lparr>matesByTerminalId :=
             AList.map_entry (numKey ident) (\<lambda>mates. mates @ [mateId]) (matesByTerminalId s1)\<rparr>)"

text \<open>
  One entry of \<^verbatim>\<open>Times\<close> in the answer of \<^verbatim>\<open>scheduletoday\<close>, with
  \<open>DepartingTime\<close> already converted to epoch seconds.
\<close>

record scheduledTime =
  DepartingTime :: int
  SailingVesselID :: int
  LoadingRule :: int

text \<open>
  The callback that builds the crossing of one departure. \<open>seenVessels\<close> is the list as
  the callback finds it. The \<^verbatim>\<open>await\<close> inside \<^verbatim>\<open>getVessel\<close> reads a property that
  \<^verbatim>\<open>updateProgress\<close> does not have, so the body of \<^verbatim>\<open>getVessel\<close> follows at once.
\<close>

definition sailing :: "int \<Rightarrow> jsval list \<Rightarrow> scheduledTime \<Rightarrow> state \<Rightarrow> crossing \<times> state" where
  "sailing now seenVessels departure s =
     (let time = DepartingTime departure;
          hasPassed = (time * 1000 < now);
          vesselId = SailingVesselID departure;
          isFirstOfVessel = (\<not> includesVal seenVessels (JNum vesselId));
          (vessel, s1) = getVesselNow (JNum vesselId) isFirstOfVessel s
      in (\<lparr>allowsPassengers = includesVal [JNum 1, JNum 3] (JNum (LoadingRule departure)),
           allowsVehicles = includesVal [JNum 2, JNum 3] (JNum (LoadingRule departure)),
           hasPassedFlag = hasPassed,
           time = time,
           vessel = vessel,
           capacity = None,
           estimate = JUndefined\<rparr>, s1))"

text \<open>
  \<^verbatim>\<open>_.map\<close> starts the callback of every departure before any of them resumes after its
  \<^verbatim>\<open>await\<close>, and \<^verbatim>\<open>seenVessels.push\<close> comes after the \<^verbatim>\<open>await\<close>: every callback reads
  \<open>seenVessels\<close> while it is still empty. The bodies of \<^verbatim>\<open>getVessel\<close> then run in
  the order of the departures.
\<close>

fun sailings :: "int \<Rightarrow> scheduledTime list \<Rightarrow> state \<Rightarrow> crossing list \<times> state" where
  "sailings now [] s = ([], s)"
| "sailings now (departure # rest) s =
     (let (c, s1) = sailing now [] departure s;
          (cs, s2) = sailings now rest s1
      in (c # cs, s2))"

text \<open>\<^verbatim>\<open>_.keyBy(schedule, 'time')\<close>: a later crossing replaces an earlier one of the same time.\<close>

definition keyBy :: "crossing list \<Rightarrow> crossing dict" where
  "keyBy schedule = fold (\<lambda>c acc. AList.update (numKey (time c)) c acc) schedule []"

text \<open>
  The rows of last week for the shadow map: \<open>weekBefore\<close> is luxon's
  \<^verbatim>\<open>DateTime.fromSeconds(t).minus({weeks: 1}).toSeconds()\<close>, which depends on the time
  zone of the process and is a parameter. The query selects by time only, so rows of every
  route in the range are indexed.
\<close>

definition indexPrevious :: "capacity list \<Rightarrow> capacity dict dict dict \<Rightarrow> capacity dict dict dict" where
  "indexPrevious crossings m =
     fold (\<lambda>row acc.
             setDeep acc (numKey (departureId row)) (numKey (arrivalId row))
               (numKey (departureTime row)) row)
       crossings m"

text \<open>
  The body of the inner \<^verbatim>\<open>eachSeries\<close> for the route from \<open>terminalId\<close> (a key of
  \<^verbatim>\<open>matesByTerminalId\<close>) to \<open>mateId\<close>. \<open>response\<close> is the list of \<^verbatim>\<open>Times\<close> of the
  first terminal combination, \<open>None\<close> when the answer has none.
\<close>

definition routeSchedule ::
  "int \<Rightarrow> (int \<Rightarrow> int) \<Rightarrow> string \<Rightarrow> int \<Rightarrow> scheduledTime list option \<Rightarrow> state \<Rightarrow> state result" where
  "routeSchedule now weekBefore terminalId mateId response s =
     (let s0 = s\<lparr>requests := requests s @ [apiScheduleToday terminalId mateId]\<rparr>
      in case response of
           None \<Rightarrow> Inl (TypeError, s0)
         | Some departures \<Rightarrow>
             (let (schedule, s1) = sailings now departures s0;
                  filled =
                    (if getRoute (previousCapacityByTerminal s1) terminalId (numKey mateId) = None
                     then (case schedule of
                             [] \<Rightarrow> Inl (TypeError, s1)
                           | first # _ \<Rightarrow>
                               (let startTime = weekBefore (time first);
                                    endTime = weekBefore (time (last schedule));
                                    crossings =
                                      filter (\<lambda>row. startTime \<le> departureTime row
                                                    \<and> departureTime row \<le> endTime)
                                        (map snd (db s1))
                                in Inr (s1\<lparr>previousCapacityByTerminal :=
                                             indexPrevious crossings
                                               (previousCapacityByTerminal s1)\<rparr>)))
                     else Inr s1)
              in case filled of
                   Inl e \<Rightarrow> Inl e
                 | Inr s2 \<Rightarrow>
                     Inr (s2\<lparr>scheduleByTerminal :=
                               setRoute (scheduleByTerminal s2) terminalId (numKey mateId)
                                 (keyBy schedule)\<rparr>)))"

text \<open>
  The two nested \<^verbatim>\<open>eachSeries\<close>: the routes one after the other, stopping at the first
  throw. \<open>scheduleToday\<close> gives the answer of the upstream for a route.
\<close>

fun eachMate ::
  "int \<Rightarrow> (int \<Rightarrow> int) \<Rightarrow> (string \<Rightarrow> int \<Rightarrow> scheduledTime list option) \<Rightarrow> string \<Rightarrow> int list
     \<Rightarrow> state \<Rightarrow> state result" where
  "eachMate now weekBefore scheduleToday terminalId [] s = Inr s"
| "eachMate now weekBefore scheduleToday terminalId (mateId # mates) s =
     (case routeSchedule now weekBefore terminalId mateId (scheduleToday terminalId mateId) s of
        Inl e \<Rightarrow> Inl e
      | Inr s1 \<Rightarrow> eachMate now weekBefore scheduleToday terminalId mates s1)"

fun eachTerminal ::
  "int \<Rightarrow> (int \<Rightarrow> int) \<Rightarrow> (string \<Rightarrow> int \<Rightarrow> scheduledTime list option) \<Rightarrow> int list dict
     \<Rightarrow> state \<Rightarrow> state result" where
  "eachTerminal now weekBefore scheduleToday [] s = Inr s"
| "eachTerminal now weekBefore scheduleToday ((terminalId, mates) # rest) s =
     (case eachMate now weekBefore scheduleToday terminalId mates s of
        Inl e \<Rightarrow> Inl e
      | Inr s1 \<Rightarrow> eachTerminal now weekBefore scheduleToday rest s1)"

text \<open>
  \<^verbatim>\<open>backfillCrossings\<close>: the rows later than \<open>yesterday\<close> (the wall clock less one
  day, rounded to seconds) are attached to their crossings; a row without a crossing makes
  the assignment throw.
\<close>

fun attachRows :: "capacity list \<Rightarrow> state \<Rightarrow> state result" where
  "attachRows [] s = Inr s"
| "attachRows (row # rows) s =
     (let k1 = numKey (departureId row); k2 = numKey (arrivalId row);
          k3 = numKey (departureTime row)
      in case getDeep (scheduleByTerminal s) k1 k2 k3 of
           None \<Rightarrow> Inl (TypeError, s)
         | Some c \<Rightarrow>
             attachRows rows
               (s\<lparr>capacityHeap := capacityHeap s @ [row],
                  scheduleByTerminal :=
                    setDeep (scheduleByTerminal s) k1 k2 k3
                      (c\<lparr>capacity := Some (length (capacityHeap s))\<rparr>)\<rparr>))"

definition backfillCrossings :: "int \<Rightarrow> state \<Rightarrow> state result" where
  "backfillCrossings yesterday s =
     attachRows (filter (\<lambda>row. departureTime row > yesterday) (map snd (db s))) s"

text \<open>
  \<^verbatim>\<open>updateSchedule\<close>. \<open>cacheFlushDate\<close> is the converted cache-flush date of the
  upstream, \<open>mates\<close> the pairs (\<^verbatim>\<open>DepartingTerminalID\<close>, \<^verbatim>\<open>ArrivingTerminalID\<close>) of
  the mates answer. An object is visited in the order of its entries.
\<close>

definition updateSchedule ::
  "int \<Rightarrow> int \<Rightarrow> (int \<Rightarrow> int) \<Rightarrow> jsval \<Rightarrow> (int \<times> int) list
     \<Rightarrow> (string \<Rightarrow> int \<Rightarrow> scheduledTime list option) \<Rightarrow> state \<Rightarrow> state result" where
  "updateSchedule now yesterday weekBefore cacheFlushDate mates scheduleToday s =
     (let s1 = s\<lparr>requests := requests s @ [API_SCHEDULE_CACHE]\<rparr>
      in if strictEq cacheFlushDate (getProp (cacheFlushDates s1) ''schedule'')
         then Inr s1
         else
           (let s2 = s1\<lparr>cacheFlushDates :=
                          AList.update ''schedule'' cacheFlushDate (cacheFlushDates s1),
                        requests := requests s1 @ [apiScheduleMates],
                        matesByTerminalId := []\<rparr>;
                s3 = fold (\<lambda>(ident, mateId) acc. addMate ident mateId acc) mates s2
            in case eachTerminal now weekBefore scheduleToday (matesByTerminalId s3) s3 of
                 Inl e \<Rightarrow> Inl e
               | Inr s4 \<Rightarrow> backfillCrossings yesterday s4))"

subsection \<open>Long cycle: terminals\<close>

definition TERMINAL_DATA_OVERRIDES :: "jsobj dict" where
  "TERMINAL_DATA_OVERRIDES =
     [(''5'', [(''location'', JObj [(''link'', JStr
         ''https://www.google.com/maps/place/Clinton+Ferry+Terminal/@47.9750653,-122.3514909,18.57z/data=!4m8!1m2!2m1!1sclinton+ferry!3m4!1s0x0:0xfc1a9b74eba33fab!8m2!3d47.9751021!4d-122.350086'')])]),
      (''13'', [(''location'', JObj [(''link'', JStr
         ''https://www.google.com/maps/place/Lopez+Ferry+Landing/@48.5706056,-122.9007289,14z/data=!4m8!1m2!2m1!1slopez+island+ferry+terminal!3m4!1s0x548581184141c77d:0xb95765067fe72167!8m2!3d48.5706056!4d-122.8834068'')])]),
      (''15'', [(''location'', JObj [(''link'', JStr
         ''https://www.google.com/maps/place/Orcas+Island+Ferry+Terminal/@48.597361,-122.9458067,17z/data=!3m1!4b1!4m5!3m4!1s0x548587ff7781be87:0xb6eeeac287820785!8m2!3d48.597361!4d-122.9436127'')])]),
      (''17'', [(''location'', JObj [(''link'', JStr
         ''https://www.google.com/maps/place/Port+Townsend+Terminal/@48.1121633,-122.7627137,17z/data=!3m1!4b1!4m5!3m4!1s0x548fedcf67a53163:0xd61a6301e962de31!8m2!3d48.1121633!4d-122.7605197'')])]),
      (''18'', [(''location'', JObj [(''link'', JStr
         ''https://www.google.com/maps/place/https://www.google.com/maps/place/Shaw+Island+Terminal/@48.584393,-122.9321401,17z/data=!3m1!4b1!4m5!3m4!1s0x548587290b11c709:0xb4bf5a7be8d73b0d!8m2!3d48.584393!4d-122.9299461linton+Ferry+Terminal/@47.9750653,-122.3514909,18.57z/data=!4m8!1m2!2m1!1sclinton+ferry!3m4!1s0x0:0xfc1a9b74eba33fab!8m2!3d47.9751021!4d-122.350086'')])])]"

text \<open>
  Terminals are never shared between holders (a mate is a deep copy), so
  \<^verbatim>\<open>terminalsById\<close> keeps them as values. \<^verbatim>\<open>_.merge\<close> with no override for the id
  changes nothing.
\<close>

definition initTerminal :: "string \<Rightarrow> state \<Rightarrow> state" where
  "initTerminal ident s =
     (if \<not> has (terminalsById s) ident
      then s\<lparr>terminalsById := AList.update ident [] (terminalsById s)\<rparr>
      else s)"

definition assignTerminal :: "string \<Rightarrow> jsobj \<Rightarrow> state \<Rightarrow> state" where
  "assignTerminal ident data s =
     (let s1 = initTerminal ident s
      in s1\<lparr>terminalsById :=
             AList.map_entry ident
               (\<lambda>terminal. mergeInto (assign terminal data)
                    (case map_of TERMINAL_DATA_OVERRIDES ident of
                       None \<Rightarrow> [] | Some override \<Rightarrow> override))
               (terminalsById s1)\<rparr>)"

text \<open>
  The mates of one terminal with their routes. \<open>routeDetails\<close> gives, for a route, the
  object \<^verbatim>\<open>{id, abbreviation, description, crossingTime}\<close> made of the first entry of
  the route details answer, \<open>None\<close> when the answer is empty (reading \<^verbatim>\<open>route.RouteID\<close>
  then throws). A mate that is not a known terminal starts from an empty object.
\<close>

fun matesWithRoute ::
  "(string \<Rightarrow> int \<Rightarrow> jsobj option) \<Rightarrow> string \<Rightarrow> int list \<Rightarrow> jsval list \<Rightarrow> state
     \<Rightarrow> (jsval list \<times> state) result" where
  "matesWithRoute routeDetails ident [] acc s = Inr (acc, s)"
| "matesWithRoute routeDetails ident (mateId # mates) acc s =
     (let mate = AList.delete ''mates''
                   (case map_of (terminalsById s) (numKey mateId) of
                      None \<Rightarrow> [] | Some terminal \<Rightarrow> terminal);
          s1 = s\<lparr>requests := requests s @ [apiScheduleRoute ident mateId]\<rparr>
      in case routeDetails ident mateId of
           None \<Rightarrow> Inl (TypeError, s1)
         | Some route \<Rightarrow>
             matesWithRoute routeDetails ident mates
               (acc @ [JObj (AList.update ''route'' (JObj route) mate)]) s1)"

fun eachTerminalMates ::
  "(string \<Rightarrow> int \<Rightarrow> jsobj option) \<Rightarrow> int list dict \<Rightarrow> state \<Rightarrow> state result" where
  "eachTerminalMates routeDetails [] s = Inr s"
| "eachTerminalMates routeDetails ((ident, mates) # rest) s =
     (case matesWithRoute routeDetails ident mates [] s of
        Inl e \<Rightarrow> Inl e
      | Inr (withRoute, s1) \<Rightarrow>
          eachTerminalMates routeDetails rest
            (assignTerminal ident [(''mates'', JArr withRoute)] s1))"

text \<open>
  \<^verbatim>\<open>updateTerminals\<close>. \<open>terminals\<close> lists, for every terminal of the verbose answer,
  its \<^verbatim>\<open>TerminalID\<close> and the object that the callback passes to \<^verbatim>\<open>assignTerminal\<close>.
\<close>

definition updateTerminals ::
  "jsval \<Rightarrow> (int \<times> jsobj) list \<Rightarrow> (string \<Rightarrow> int \<Rightarrow> jsobj option) \<Rightarrow> state \<Rightarrow> state result" where
  "updateTerminals cacheFlushDate terminals routeDetails s =
     (let s1 = s\<lparr>requests := requests s @ [API_TERMINALS_CACHE]\<rparr>
      in if strictEq cacheFlushDate (getProp (cacheFlushDates s1) ''terminals'')
         then Inr s1
         else
           (let s2 = s1\<lparr>cacheFlushDates :=
                          AList.update ''terminals'' cacheFlushDate (cacheFlushDates s1),
                        requests := requests s1 @ [API_TERMINALS_VERBOSE]\<rparr>;
                s3 = fold (\<lambda>(ident, data) acc. assignTerminal (numKey ident) data acc)
                       terminals s2
            in case getMates s3 of
                 Suspended \<Rightarrow> Inl (AwaitPending, s3)
               | Threw \<Rightarrow> Inl (AwaitRejected, s3)
               | Returned mates \<Rightarrow> eachTerminalMates routeDetails mates s3))"

subsection \<open>Short cycle: capacity\<close>

text \<open>
  \<^verbatim>\<open>getPreviousCapacity\<close>. The departure times are the keys of the route's schedule,
  which are strings, sorted; the departure time looked for is a number. The result is the
  capacity object of the crossing before, \<open>None\<close> for \<^verbatim>\<open>null\<close>.
\<close>

definition getPreviousCapacity :: "state \<Rightarrow> int \<Rightarrow> int \<Rightarrow> int \<Rightarrow> addr option" where
  "getPreviousCapacity s departingId arrivingId departingTime =
     (let schedule = getRoute (scheduleByTerminal s) (numKey departingId) (numKey arrivingId);
          departureTimes =
            map JStr (sortBy (keys (case schedule of None \<Rightarrow> [] | Some entries \<Rightarrow> entries)));
          departureIndex = indexOf departureTimes (JNum departingTime)
      in if departureIndex = 0 then None
         else
           (let previousDepartureTime = elemAt departureTimes (departureIndex - 1)
            in case schedule of
                 None \<Rightarrow> None
               | Some entries \<Rightarrow>
                   (case map_of entries (toKey previousDepartureTime) of
                      None \<Rightarrow> None
                    | Some previous \<Rightarrow> capacity previous)))"

text \<open>
  One reading of the terminal sailing space answer: the space for one arrival terminal of
  one departure of one terminal, in the order in which the three nested loops reach it.
  \<open>Departure\<close> is already converted to epoch seconds.
\<close>

record reading =
  TerminalID :: int
  Departure :: int
  DepartureVesselID :: int
  IsCancelled :: bool
  ArrivalTerminalID :: int
  DriveUpSpaceCount :: int
  DisplayDriveUpSpace :: bool
  DisplayReservableSpace :: bool
  ReservableSpaceCount :: int
  MaxSpaceCount :: int

text \<open>
  \<^verbatim>\<open>_.get(vessel, 'departureDelta', null)\<close> on the vessel of the departure: the delay
  when the vessel has one, \<^verbatim>\<open>null\<close> otherwise.
\<close>

definition vesselDelta :: "state \<Rightarrow> int \<Rightarrow> int option" where
  "vesselDelta s vesselId =
     (case vesselProp s vesselId ''departureDelta'' of JNum d \<Rightarrow> Some d | _ \<Rightarrow> None)"

definition model :: "state \<Rightarrow> reading \<Rightarrow> capacity" where
  "model s r =
     \<lparr>arrivalId = ArrivalTerminalID r,
      departureId = TerminalID r,
      departureDelta = vesselDelta s (DepartureVesselID r),
      departureTime = Departure r,
      driveUpCapacity = DriveUpSpaceCount r,
      hasDriveUp = DisplayDriveUpSpace r,
      hasReservations = DisplayReservableSpace r,
      isCancelled = IsCancelled r,
      reservableCapacity = ReservableSpaceCount r,
      totalCapacity = MaxSpaceCount r\<rparr>"

text \<open>
  The callback of a reading is asynchronous. Its first part runs inside the loops, up to
  the \<^verbatim>\<open>await\<close>: it builds the capacity object, attaches it to the crossing (which
  throws when there is no crossing, before anything is saved), saves it, and calls
  \<^verbatim>\<open>getPreviousCapacity\<close>. It leaves the previous capacity and its own capacity object
  to the second part.
\<close>

definition spaceCallback :: "reading \<Rightarrow> state \<Rightarrow> ((addr option \<times> addr) \<times> state) result" where
  "spaceCallback r s =
     (let departureTime = Departure r;
          arrivalId = ArrivalTerminalID r;
          departureId = TerminalID r;
          k1 = numKey departureId; k2 = numKey arrivalId; k3 = numKey departureTime
      in case getDeep (scheduleByTerminal s) k1 k2 k3 of
           None \<Rightarrow> Inl (TypeError, s)
         | Some c \<Rightarrow>
             (let a = length (capacityHeap s);
                  s1 = s\<lparr>capacityHeap := capacityHeap s @ [model s r],
                         scheduleByTerminal :=
                           setDeep (scheduleByTerminal s) k1 k2 k3 (c\<lparr>capacity := Some a\<rparr>)\<rparr>;
                  s2 = saveCapacity (model s r) s1;
                  previousCapacity = getPreviousCapacity s2 departureId arrivalId departureTime
              in Inr ((previousCapacity, a), s2)))"

text \<open>
  The second part, after the \<^verbatim>\<open>await\<close>: the supersession correction. The previous
  capacity object is set to zero in place and saved when it exists, has not passed, is not
  full, and the reading's capacity is not empty.
\<close>

definition supersession :: "int \<Rightarrow> addr option \<times> addr \<Rightarrow> state \<Rightarrow> state" where
  "supersession now pending s =
     (case pending of
        (None, a) \<Rightarrow> s
      | (Some p, a) \<Rightarrow>
          (case (deref (capacityHeap s) p, deref (capacityHeap s) a) of
             (Some previousCapacity, Some current) \<Rightarrow>
               if hasPassed now (Some previousCapacity) \<noteq> Some True
                  \<and> \<not> isFull previousCapacity \<and> \<not> isEmpty current
               then
                 (let zeroed = previousCapacity\<lparr>driveUpCapacity := 0, reservableCapacity := 0\<rparr>
                  in saveCapacity zeroed (s\<lparr>capacityHeap := (capacityHeap s)[p := zeroed]\<rparr>))
               else s
           | _ \<Rightarrow> s))"

text \<open>
  \<^verbatim>\<open>recordCapacity\<close>: the loops run the first part of every callback; a callback that
  throws becomes a rejected promise that nothing handles, and the loops go on. The second
  parts run afterwards, in the same order. The result is the state and the errors of the
  rejected callbacks.
\<close>

fun eachReading ::
  "reading list \<Rightarrow> state \<Rightarrow> (addr option \<times> addr) list \<times> error list \<times> state" where
  "eachReading [] s = ([], [], s)"
| "eachReading (r # rs) s =
     (case spaceCallback r s of
        Inl (e, s1) \<Rightarrow>
          (let (pendings, errors, s2) = eachReading rs s1 in (pendings, e # errors, s2))
      | Inr (pending, s1) \<Rightarrow>
          (let (pendings, errors, s2) = eachReading rs s1 in (pending # pendings, errors, s2)))"

definition recordCapacity :: "int \<Rightarrow> reading list \<Rightarrow> state \<Rightarrow> error list \<times> state" where
  "recordCapacity now readings s =
     (let (pendings, errors, s1) =
            eachReading readings (s\<lparr>requests := requests s @ [API_TERMINALS_SPACE]\<rparr>)
      in (errors, fold (supersession now) pendings s1))"

subsection \<open>Short cycle: estimates\<close>

text \<open>
  \<^verbatim>\<open>updateEstimates\<close> visits every crossing of every route and sets its estimate from
  the shadow map entry of the same route one week before the crossing's time.
\<close>

definition pick :: "capacity \<Rightarrow> jsval" where
  "pick previousCapacity =
     JObj [(''driveUpCapacity'', JNum (driveUpCapacity previousCapacity)),
           (''reservableCapacity'', JNum (reservableCapacity previousCapacity))]"

definition estimateFor ::
  "(int \<Rightarrow> int) \<Rightarrow> capacity dict dict dict \<Rightarrow> string \<Rightarrow> string \<Rightarrow> crossing \<Rightarrow> jsval" where
  "estimateFor weekBefore previous departingId mateId c =
     (let previousDepartureTime = weekBefore (time c)
      in case getDeep previous departingId mateId (numKey previousDepartureTime) of
           Some previousCapacity \<Rightarrow> pick previousCapacity
         | None \<Rightarrow> JNull)"

definition updateEstimates :: "(int \<Rightarrow> int) \<Rightarrow> state \<Rightarrow> state" where
  "updateEstimates weekBefore s =
     s\<lparr>scheduleByTerminal :=
         map (\<lambda>(departureId, mates).
                (departureId,
                 map (\<lambda>(mateId, schedule).
                        (mateId,
                         map (\<lambda>(k, c).
                                (k, c\<lparr>estimate :=
                                        estimateFor weekBefore (previousCapacityByTerminal s)
                                          departureId mateId c\<rparr>))
                           schedule))
                   mates))
           (scheduleByTerminal s)\<rparr>"

subsection \<open>The two cycles\<close>

text \<open>
  \<^verbatim>\<open>updateCache\<close> stores the promise of each refresh in \<^verbatim>\<open>updateProgress\<close> and awaits
  it. The promise is pending while the refresh runs, \<open>inFlight\<close>, and settles with it,
  \<open>settle\<close>.
\<close>

definition inFlight :: "string \<Rightarrow> state \<Rightarrow> state" where
  "inFlight family s = s\<lparr>updateProgress := AList.update family Pending (updateProgress s)\<rparr>"

definition settle :: "string \<Rightarrow> state result \<Rightarrow> state result" where
  "settle family r =
     (case r of
        Inl (e, s) \<Rightarrow>
          Inl (e, if e = AwaitPending then s
                  else s\<lparr>updateProgress := AList.update family Rejected (updateProgress s)\<rparr>)
      | Inr s \<Rightarrow> Inr (s\<lparr>updateProgress := AList.update family Fulfilled (updateProgress s)\<rparr>))"

definition updateCache ::
  "int \<Rightarrow> int \<Rightarrow> (int \<Rightarrow> int) \<Rightarrow> jsval \<Rightarrow> (int \<times> jsobj) list
     \<Rightarrow> jsval \<Rightarrow> (int \<times> int) list \<Rightarrow> (string \<Rightarrow> int \<Rightarrow> scheduledTime list option)
     \<Rightarrow> jsval \<Rightarrow> (int \<times> jsobj) list \<Rightarrow> (string \<Rightarrow> int \<Rightarrow> jsobj option)
     \<Rightarrow> state \<Rightarrow> state result" where
  "updateCache now yesterday weekBefore vesselsFlushDate vessels scheduleFlushDate mates
     scheduleToday terminalsFlushDate terminals routeDetails s =
     (case settle ''vessels''
             (Inr (updateVessels vesselsFlushDate vessels (inFlight ''vessels'' s))) of
        Inl e \<Rightarrow> Inl e
      | Inr s1 \<Rightarrow>
          (case settle ''schedule''
                  (updateSchedule now yesterday weekBefore scheduleFlushDate mates scheduleToday
                     (inFlight ''schedule'' s1)) of
             Inl e \<Rightarrow> Inl e
           | Inr s2 \<Rightarrow>
               settle ''terminals''
                 (updateTerminals terminalsFlushDate terminals routeDetails
                    (inFlight ''terminals'' s2))))"

text \<open>\<^verbatim>\<open>updateCrossings\<close>: timing, then capacity, then the estimates.\<close>

definition updateCrossings ::
  "int \<Rightarrow> (int \<Rightarrow> int) \<Rightarrow> vesselLocation list \<Rightarrow> reading list \<Rightarrow> state
     \<Rightarrow> (error list \<times> state) result" where
  "updateCrossings now weekBefore vessels readings s =
     (case recordTiming now vessels s of
        Inl e \<Rightarrow> Inl e
      | Inr s1 \<Rightarrow>
          (let (errors, s2) = recordCapacity now readings s1
           in Inr (errors, updateEstimates weekBefore s2)))"

section \<open>Well-formed states and example states\<close>

text \<open>
  \<^verbatim>\<open>updateProgress\<close> is created with three properties and the module assigns to these
  three only.
\<close>

definition progressWellFormed :: "state \<Rightarrow> bool" where
  "progressWellFormed s = (keys (updateProgress s) = [''schedule'', ''vessels'', ''terminals''])"

text \<open>A schedule as \<^verbatim>\<open>_.keyBy(schedule, 'time')\<close> builds it: every key is the crossing's time.\<close>

definition keyedByTime :: "crossing dict \<Rightarrow> bool" where
  "keyedByTime schedule = list_all (\<lambda>(k, c). k = numKey (time c)) schedule"

text \<open>A week of exactly 604800 seconds, as luxon computes it away from clock changes.\<close>

definition exactWeekBefore :: "int \<Rightarrow> int" where
  "exactWeekBefore t = t - 604800"

text \<open>A cache that holds vessel 1 with a delay of 120 seconds.\<close>

definition tacomaCached :: state where
  "tacomaCached =
     assignVessel 1 [(''name'', JStr ''Tacoma''), (''departureDelta'', JNum 120)] initialState"

text \<open>
  A long cycle on the initial state, with one saved row from last week. The upstream has
  vessel 1, terminals 1 and 2, the route from 1 to 2 and two sailings on it today, at
  700000 and at 703600 seconds; the wall clock is at 650000 seconds.
\<close>

definition lastWeekRow :: capacity where
  "lastWeekRow =
     \<lparr>arrivalId = 2, departureId = 1, departureDelta = None, departureTime = 95200,
      driveUpCapacity = 40, hasDriveUp = True, hasReservations = True, isCancelled = False,
      reservableCapacity = 12, totalCapacity = 90\<rparr>"

definition todaysTimes :: "scheduledTime list" where
  "todaysTimes =
     [\<lparr>DepartingTime = 700000, SailingVesselID = 1, LoadingRule = 3\<rparr>,
      \<lparr>DepartingTime = 703600, SailingVesselID = 1, LoadingRule = 3\<rparr>]"

definition routeOneTwo :: jsobj where
  "routeOneTwo =
     [(''id'', JNum 9), (''abbreviation'', JStr ''ana-lop''),
      (''description'', JStr ''Anacortes / Lopez''), (''crossingTime'', JNum 45)]"

definition longCycle :: "state result" where
  "longCycle =
     updateCache 650000000 563600 exactWeekBefore
       (JNum 100) [(1, [(''name'', JStr ''Tacoma'')])]
       (JNum 100) [(1, 2)] (\<lambda>terminalId mateId. Some todaysTimes)
       (JNum 100) [(1, [(''name'', JStr ''Anacortes'')]), (2, [(''name'', JStr ''Lopez'')])]
       (\<lambda>terminalId mateId. Some routeOneTwo)
       (initialState\<lparr>db := [((2, 1, 95200), lastWeekRow)]\<rparr>)"

text \<open>The state that this long cycle ends in (lemma \<open>longCycle_twoSailings\<close>).\<close>

definition sailingAt :: "int \<Rightarrow> addr \<Rightarrow> crossing" where
  "sailingAt t a =
     \<lparr>allowsPassengers = True, allowsVehicles = True, hasPassedFlag = False, time = t,
      vessel = Some a, capacity = None, estimate = JUndefined\<rparr>"

definition twoSailings :: state where
  "twoSailings =
     \<lparr>cacheFlushDates =
        [(''schedule'', JNum 100), (''vessels'', JNum 100), (''terminals'', JNum 100)],
      updateProgress =
        [(''schedule'', Fulfilled), (''vessels'', Fulfilled), (''terminals'', Fulfilled)],
      matesByTerminalId = [(''1'', [2])],
      vesselsById = [(''1'', 0)],
      vesselHeap =
        [[(''name'', JStr ''Tacoma'')],
         [(''name'', JStr ''Tacoma''), (''departureDelta'', JNull)],
         [(''name'', JStr ''Tacoma''), (''departureDelta'', JNull)]],
      previousCapacityByTerminal = [(''1'', [(''2'', [(''95200'', lastWeekRow)])])],
      terminalsById =
        [(''1'', [(''name'', JStr ''Anacortes''),
                  (''mates'', JArr [JObj [(''name'', JStr ''Lopez''),
                                          (''route'', JObj routeOneTwo)]])]),
         (''2'', [(''name'', JStr ''Lopez'')])],
      scheduleByTerminal =
        [(''1'', [(''2'', [(''700000'', sailingAt 700000 1), (''703600'', sailingAt 703600 2)])])],
      capacityHeap = [],
      db = [((2, 1, 95200), lastWeekRow)],
      requests =
        [API_VESSELS_CACHE, API_VESSELS_VERBOSE, API_SCHEDULE_CACHE, apiScheduleMates,
         apiScheduleToday ''1'' 2, API_TERMINALS_CACHE, API_TERMINALS_VERBOSE,
         apiScheduleRoute ''1'' 2]\<rparr>"

text \<open>A location answer for vessel 1, at dock or not, and a reading for the route.\<close>

definition berth :: "bool \<Rightarrow> vesselLocation" where
  "berth docked =
     \<lparr>VesselID = 1, LeftDock = None, ScheduledDeparture = None, Eta = None, AtDock = docked,
      ArrivingTerminalID = JNum 2, DepartingTerminalID = JNum 1, Heading = JNum 90,
      Latitude = JNum 48, Longitude = JNum (- 122), Mmsi = JNum 366, Speed = JNum 0,
      EtaBasis = JNull\<rparr>"

definition readingFor :: "int \<Rightarrow> int \<Rightarrow> int \<Rightarrow> int \<Rightarrow> reading" where
  "readingFor t driveUp reservable maxSpace =
     \<lparr>TerminalID = 1, Departure = t, DepartureVesselID = 1, IsCancelled = False,
      ArrivalTerminalID = 2, DriveUpSpaceCount = driveUp, DisplayDriveUpSpace = True,
      DisplayReservableSpace = True, ReservableSpaceCount = reservable,
      MaxSpaceCount = maxSpace\<rparr>"

section \<open>Properties\<close>

subsection \<open>The example run\<close>

lemmas long_cycle_defs = longCycle_def updateCache_def settle_def inFlight_def
  updateVessels_def updateSchedule_def updateTerminals_def assignVessel_def initVessel_def
  addMate_def initMates_def eachTerminal.simps eachMate.simps routeSchedule_def
  sailings.simps sailing_def getVesselNow_def cloneDeep_def merge_def keyBy_def
  indexPrevious_def setDeep_def setRoute_def getRoute_def getDeep_def backfillCrossings_def
  assignTerminal_def initTerminal_def getMates_def await_def TERMINAL_DATA_OVERRIDES_def
  initialState_def todaysTimes_def lastWeekRow_def exactWeekBefore_def
  has_def assign_def getProp_def deref_def includesVal_def indexOf_def numKey_def
  showNat.simps digitChar_def Let_def

lemma longCycle_twoSailings: "longCycle = Inr twoSailings"
  by (simp add: long_cycle_defs twoSailings_def sailingAt_def)

text \<open>
  C6. For every capacity record, \<open>isEmpty\<close> holds exactly when drive-up plus reservable
  space equals the total, \<open>isFull\<close> holds exactly when both counts are zero, and a record
  with a positive total is never both empty and full.
\<close>

theorem isEmpty_isFull_exact:
  "(isEmpty c \<longleftrightarrow> driveUpCapacity c + reservableCapacity c = totalCapacity c)
   \<and> (isFull c \<longleftrightarrow> driveUpCapacity c = 0 \<and> reservableCapacity c = 0)
   \<and> (0 < totalCapacity c \<longrightarrow> \<not> (isEmpty c \<and> isFull c))"
  by (auto simp: isEmpty_def isFull_def)

theorem isEmpty_isFull_exact_witness:
  "0 < totalCapacity \<lparr>arrivalId = 2, departureId = 1, departureDelta = None,
       departureTime = 1000, driveUpCapacity = 0, hasDriveUp = True, hasReservations = True,
       isCancelled = False, reservableCapacity = 0, totalCapacity = 10\<rparr>
   \<and> isFull \<lparr>arrivalId = 2, departureId = 1, departureDelta = None,
       departureTime = 1000, driveUpCapacity = 0, hasDriveUp = True, hasReservations = True,
       isCancelled = False, reservableCapacity = 0, totalCapacity = 10\<rparr>
   \<and> \<not> isEmpty \<lparr>arrivalId = 2, departureId = 1, departureDelta = None,
       departureTime = 1000, driveUpCapacity = 0, hasDriveUp = True, hasReservations = True,
       isCancelled = False, reservableCapacity = 0, totalCapacity = 10\<rparr>"
  using isEmpty_isFull_exact [of "\<lparr>arrivalId = 2, departureId = 1, departureDelta = None,
       departureTime = 1000, driveUpCapacity = 0, hasDriveUp = True, hasReservations = True,
       isCancelled = False, reservableCapacity = 0, totalCapacity = 10\<rparr>"]
  by simp

subsection \<open>Loading rules\<close>

text \<open>
  C5. The crossing built for a departure allows passengers exactly when the loading rule
  is 1 or 3, and vehicles exactly when it is 2 or 3; this holds for every loading-rule
  code, the codes 1, 2 and 3 among them.
\<close>

theorem loading_rule_eligibility:
  "allowsPassengers (fst (sailing now seenVessels departure s)) = (LoadingRule departure \<in> {1, 3})
   \<and> allowsVehicles (fst (sailing now seenVessels departure s)) = (LoadingRule departure \<in> {2, 3})"
  by (simp add: sailing_def Let_def split_def includesVal_def indexOf_def)

subsection \<open>The flush-date gate\<close>

text \<open>
  C3. For each of the three families, when the fetched cache-flush date equals the
  recorded one, the refresh returns the state it was given with one more request in the
  trace, the cache-flush-date request itself: nothing is fetched again, and every map
  (schedule, vessels, terminals, mates) is the one before the run.
\<close>

theorem flush_token_idempotence:
  "(strictEq cacheFlushDate (getProp (cacheFlushDates s) ''schedule'') \<longrightarrow>
      updateSchedule now yesterday weekBefore cacheFlushDate mates scheduleToday s
        = Inr (s\<lparr>requests := requests s @ [API_SCHEDULE_CACHE]\<rparr>))
   \<and> (strictEq cacheFlushDate (getProp (cacheFlushDates s) ''vessels'') \<longrightarrow>
      updateVessels cacheFlushDate vessels s
        = s\<lparr>requests := requests s @ [API_VESSELS_CACHE]\<rparr>)
   \<and> (strictEq cacheFlushDate (getProp (cacheFlushDates s) ''terminals'') \<longrightarrow>
      updateTerminals cacheFlushDate terminals routeDetails s
        = Inr (s\<lparr>requests := requests s @ [API_TERMINALS_CACHE]\<rparr>))"
  by (simp add: updateSchedule_def updateVessels_def updateTerminals_def Let_def)

theorem flush_token_idempotence_witness:
  "strictEq (JNum 100) (getProp (cacheFlushDates twoSailings) ''schedule'')
   \<and> strictEq (JNum 100) (getProp (cacheFlushDates twoSailings) ''vessels'')
   \<and> strictEq (JNum 100) (getProp (cacheFlushDates twoSailings) ''terminals'')
   \<and> updateSchedule 680000000 593600 exactWeekBefore (JNum 100) [(1, 2)]
        (\<lambda>terminalId mateId. Some todaysTimes) twoSailings
      = Inr (twoSailings\<lparr>requests := requests twoSailings @ [API_SCHEDULE_CACHE]\<rparr>)
   \<and> updateVessels (JNum 100) [(1, [(''name'', JStr ''Tacoma'')])] twoSailings
      = twoSailings\<lparr>requests := requests twoSailings @ [API_VESSELS_CACHE]\<rparr>
   \<and> updateTerminals (JNum 100)
        [(1, [(''name'', JStr ''Anacortes'')]), (2, [(''name'', JStr ''Lopez'')])]
        (\<lambda>terminalId mateId. Some routeOneTwo) twoSailings
      = Inr (twoSailings\<lparr>requests := requests twoSailings @ [API_TERMINALS_CACHE]\<rparr>)"
proof -
  have "strictEq (JNum 100) (getProp (cacheFlushDates twoSailings) ''schedule'')"
    and "strictEq (JNum 100) (getProp (cacheFlushDates twoSailings) ''vessels'')"
    and "strictEq (JNum 100) (getProp (cacheFlushDates twoSailings) ''terminals'')"
    by (simp_all add: twoSailings_def getProp_def)
  then show ?thesis
    using flush_token_idempotence [of "JNum 100" twoSailings] by simp
qed

subsection \<open>Estimates\<close>

lemma map_of_map_entries:
  "map_of (map (\<lambda>(k, v). (k, f k v)) xs) k = map_option (f k) (map_of xs k)"
  by (induction xs) auto

lemma getDeep_updateEstimates:
  "getDeep (scheduleByTerminal (updateEstimates weekBefore s)) d m k =
     map_option (\<lambda>c. c\<lparr>estimate := estimateFor weekBefore (previousCapacityByTerminal s) d m c\<rparr>)
       (getDeep (scheduleByTerminal s) d m k)"
  by (simp add: updateEstimates_def getDeep_def getRoute_def map_of_map_entries
        split: option.splits)

text \<open>
  C4. After \<^verbatim>\<open>updateEstimates\<close>, a crossing of a route is the crossing it was with a new
  estimate: when the shadow map holds, for the same route, a record under the time one
  week before the crossing's time, the estimate is the object made of that record's
  \<^verbatim>\<open>driveUpCapacity\<close> and \<^verbatim>\<open>reservableCapacity\<close>; when it holds none, the estimate is
  \<^verbatim>\<open>null\<close>.
\<close>

theorem estimate_correctness:
  assumes "getDeep (scheduleByTerminal s) departingId mateId k = Some c"
  shows "\<exists>c'. getDeep (scheduleByTerminal (updateEstimates weekBefore s)) departingId mateId k
                = Some c'
           \<and> c' = c\<lparr>estimate := estimate c'\<rparr>
           \<and> (\<forall>previous.
                 getDeep (previousCapacityByTerminal s) departingId mateId
                   (numKey (weekBefore (time c))) = Some previous
                 \<longrightarrow> estimate c' =
                       JObj [(''driveUpCapacity'', JNum (driveUpCapacity previous)),
                             (''reservableCapacity'', JNum (reservableCapacity previous))])
           \<and> (getDeep (previousCapacityByTerminal s) departingId mateId
                 (numKey (weekBefore (time c))) = None
               \<longrightarrow> estimate c' = JNull)"
  using assms by (simp add: getDeep_updateEstimates estimateFor_def pick_def)

lemmas route_defs = twoSailings_def sailingAt_def getDeep_def getRoute_def numKey_def
  showNat.simps digitChar_def exactWeekBefore_def

theorem estimate_correctness_witness:
  "getDeep (scheduleByTerminal twoSailings) ''1'' ''2'' ''700000'' = Some (sailingAt 700000 1)
   \<and> getDeep (previousCapacityByTerminal twoSailings) ''1'' ''2''
       (numKey (exactWeekBefore (time (sailingAt 700000 1)))) = Some lastWeekRow
   \<and> getDeep (scheduleByTerminal (updateEstimates exactWeekBefore twoSailings))
       ''1'' ''2'' ''700000''
     = Some ((sailingAt 700000 1)\<lparr>estimate :=
         JObj [(''driveUpCapacity'', JNum 40), (''reservableCapacity'', JNum 12)]\<rparr>)"
proof -
  have c: "getDeep (scheduleByTerminal twoSailings) ''1'' ''2'' ''700000''
             = Some (sailingAt 700000 1)"
    by (simp add: route_defs)
  have p: "getDeep (previousCapacityByTerminal twoSailings) ''1'' ''2''
             (numKey (exactWeekBefore (time (sailingAt 700000 1)))) = Some lastWeekRow"
    by (simp add: route_defs)
  obtain c' where
    c': "getDeep (scheduleByTerminal (updateEstimates exactWeekBefore twoSailings))
           ''1'' ''2'' ''700000'' = Some c'"
    and frame: "c' = (sailingAt 700000 1)\<lparr>estimate := estimate c'\<rparr>"
    and est: "\<forall>previous.
                 getDeep (previousCapacityByTerminal twoSailings) ''1'' ''2''
                   (numKey (exactWeekBefore (time (sailingAt 700000 1)))) = Some previous
                 \<longrightarrow> estimate c' =
                       JObj [(''driveUpCapacity'', JNum (driveUpCapacity previous)),
                             (''reservableCapacity'', JNum (reservableCapacity previous))]"
    using estimate_correctness [OF c, of exactWeekBefore] by blast
  from est p have "estimate c' =
      JObj [(''driveUpCapacity'', JNum (driveUpCapacity lastWeekRow)),
            (''reservableCapacity'', JNum (reservableCapacity lastWeekRow))]"
    by blast
  then have "estimate c' = JObj [(''driveUpCapacity'', JNum 40), (''reservableCapacity'', JNum 12)]"
    by (simp add: lastWeekRow_def)
  with frame have "c' = (sailingAt 700000 1)\<lparr>estimate :=
         JObj [(''driveUpCapacity'', JNum 40), (''reservableCapacity'', JNum 12)]\<rparr>"
    by simp
  with c p c' show ?thesis by simp
qed

subsection \<open>The previous capacity\<close>

lemma indexOfFrom_string_number: "indexOfFrom i (map JStr ks) (JNum t) = -1"
  by (induction ks arbitrary: i) auto

lemma last_showNat: "last (showNat n) = digitChar (n mod 10)"
  by (subst showNat.simps) simp

lemma digitChar_not_d: "digitChar n \<noteq> CHR ''d''"
  by (simp add: digitChar_def)

lemma showNat_not_undefined: "showNat n \<noteq> ''undefined''"
proof
  assume "showNat n = ''undefined''"
  then have "last (showNat n) = CHR ''d''" by simp
  then show False by (simp add: last_showNat digitChar_not_d)
qed

lemma numKey_not_undefined: "numKey n \<noteq> ''undefined''"
  by (simp add: numKey_def showNat_not_undefined)

text \<open>
  A number is never found among the keys, so the index is \<open>-1\<close>, the entry read is
  \<^verbatim>\<open>departureTimes[-2]\<close>, and the crossing looked up is the one under the key
  \<^verbatim>\<open>"undefined"\<close>.
\<close>

lemma getPreviousCapacity_without_undefined_key:
  assumes "\<And>schedule. getRoute (scheduleByTerminal s) (numKey d) (numKey a) = Some schedule
             \<Longrightarrow> map_of schedule ''undefined'' = None"
  shows "getPreviousCapacity s d a t = None"
  using assms
  by (simp add: getPreviousCapacity_def Let_def indexOf_def indexOfFrom_string_number
        elemAt_def split: option.splits)

lemma keyedByTime_no_undefined: "keyedByTime schedule \<Longrightarrow> map_of schedule ''undefined'' = None"
  by (induction schedule) (auto simp: keyedByTime_def numKey_not_undefined [symmetric])

lemma getRoute_setRoute: "getRoute (setRoute m k1 k2 v) k1 k2 = Some v"
  by (simp add: getRoute_def setRoute_def update_conv')

lemma getRoute_setDeep:
  "getRoute (setDeep m k1 k2 k3 v) k1 k2 =
     Some (AList.update k3 v (case getRoute m k1 k2 of None \<Rightarrow> [] | Some schedule \<Rightarrow> schedule))"
  by (simp add: setDeep_def getRoute_setRoute)

lemma keyBy_keyed_acc:
  "keyedByTime acc \<Longrightarrow> keyedByTime (fold (\<lambda>c acc. AList.update (numKey (time c)) c acc) cs acc)"
proof (induction cs arbitrary: acc)
  case Nil
  then show ?case by simp
next
  case (Cons c cs)
  have "keyedByTime (AList.update (numKey (time c)) c acc)"
    using Cons.prems by (induction acc) (auto simp: keyedByTime_def)
  then show ?case using Cons.IH by simp
qed

lemma keyBy_keyedByTime: "keyedByTime (keyBy schedule)"
  unfolding keyBy_def by (rule keyBy_keyed_acc) (simp add: keyedByTime_def)

text \<open>
  C10. For a reading whose departure time is the first of the sorted keys of its route's
  schedule, \<^verbatim>\<open>getPreviousCapacity\<close> returns \<^verbatim>\<open>null\<close>, and the capacity update of that
  reading attaches the new capacity object to the reading's crossing and saves its row,
  and does nothing else: no other capacity object is changed and no other row is written.
\<close>

theorem first_sailing_no_supersession:
  assumes route: "getRoute (scheduleByTerminal s) (numKey (TerminalID r))
                    (numKey (ArrivalTerminalID r)) = Some schedule"
      and keyed: "keyedByTime schedule"
      and earliest: "sortBy (keys schedule) = numKey (Departure r) # later"
  shows "getPreviousCapacity s (TerminalID r) (ArrivalTerminalID r) (Departure r) = None
    \<and> (\<exists>c. map_of schedule (numKey (Departure r)) = Some c
         \<and> recordCapacity now [r] s =
             ([], s\<lparr>requests := requests s @ [API_TERMINALS_SPACE],
                    capacityHeap := capacityHeap s @ [model s r],
                    scheduleByTerminal :=
                      setDeep (scheduleByTerminal s) (numKey (TerminalID r))
                        (numKey (ArrivalTerminalID r)) (numKey (Departure r))
                        (c\<lparr>capacity := Some (length (capacityHeap s))\<rparr>),
                    db := AList.update (ArrivalTerminalID r, TerminalID r, Departure r)
                            (model s r) (db s)\<rparr>))"
proof -
  have none: "map_of schedule ''undefined'' = None"
    using keyed by (rule keyedByTime_no_undefined)
  have first: "getPreviousCapacity s (TerminalID r) (ArrivalTerminalID r) (Departure r) = None"
    by (rule getPreviousCapacity_without_undefined_key) (use route none in simp)
  have "numKey (Departure r) \<in> set (sortBy (keys schedule))"
    using earliest by simp
  then have "numKey (Departure r) \<in> fst ` set schedule"
    by (simp add: sortBy_def keys_def)
  then obtain c where c: "map_of schedule (numKey (Departure r)) = Some c"
    by (metis domD dom_map_of_conv_image_fst)
  let ?s0 = "s\<lparr>requests := requests s @ [API_TERMINALS_SPACE]\<rparr>"
  have m: "model ?s0 r = model s r"
    by (simp add: model_def vesselDelta_def vesselProp_def cachedVessel_def
          cong: option.case_cong)
  let ?s2 = "saveCapacity (model s r)
               (?s0\<lparr>capacityHeap := capacityHeap s @ [model s r],
                    scheduleByTerminal :=
                      setDeep (scheduleByTerminal s) (numKey (TerminalID r))
                        (numKey (ArrivalTerminalID r)) (numKey (Departure r))
                        (c\<lparr>capacity := Some (length (capacityHeap s))\<rparr>)\<rparr>)"
  have after: "getPreviousCapacity ?s2 (TerminalID r) (ArrivalTerminalID r) (Departure r) = None"
    by (rule getPreviousCapacity_without_undefined_key)
       (use route none in \<open>auto simp: saveCapacity_def getRoute_setDeep update_conv'
            numKey_not_undefined numKey_not_undefined [symmetric]\<close>)
  have cb: "spaceCallback r ?s0 = Inr ((None, length (capacityHeap s)), ?s2)"
    using route c after by (simp add: spaceCallback_def Let_def getDeep_def m)
  have "recordCapacity now [r] s = ([], ?s2)"
    by (simp add: recordCapacity_def cb supersession_def)
  then show ?thesis
    using first c by (simp add: saveCapacity_def model_def)
qed

lemmas capacity_defs = recordCapacity_def spaceCallback_def supersession_def
  getPreviousCapacity_def getDeep_def getRoute_def setDeep_def setRoute_def saveCapacity_def
  model_def vesselDelta_def vesselProp_def cachedVessel_def twoSailings_def
  readingFor_def sailingAt_def numKey_def showNat.simps digitChar_def Let_def keys_def
  sortBy_def indexOf_def elemAt_def deref_def hasPassed_def isFull_def isEmpty_def getProp_def

theorem first_sailing_no_supersession_witness:
  "getRoute (scheduleByTerminal twoSailings) (numKey (TerminalID (readingFor 700000 30 10 90)))
     (numKey (ArrivalTerminalID (readingFor 700000 30 10 90)))
     = Some [(''700000'', sailingAt 700000 1), (''703600'', sailingAt 703600 2)]
   \<and> keyedByTime [(''700000'', sailingAt 700000 1), (''703600'', sailingAt 703600 2)]
   \<and> sortBy (keys [(''700000'', sailingAt 700000 1), (''703600'', sailingAt 703600 2)])
       = numKey (Departure (readingFor 700000 30 10 90)) # [''703600'']
   \<and> getPreviousCapacity twoSailings 1 2 700000 = None
   \<and> recordCapacity 650000000 [readingFor 700000 30 10 90] twoSailings =
       ([], twoSailings\<lparr>requests := requests twoSailings @ [API_TERMINALS_SPACE],
              capacityHeap := [model twoSailings (readingFor 700000 30 10 90)],
              scheduleByTerminal :=
                [(''1'', [(''2'', [(''700000'', (sailingAt 700000 1)\<lparr>capacity := Some 0\<rparr>),
                                    (''703600'', sailingAt 703600 2)])])],
              db := [((2, 1, 95200), lastWeekRow),
                     ((2, 1, 700000), model twoSailings (readingFor 700000 30 10 90))]\<rparr>)"
proof -
  let ?r = "readingFor 700000 30 10 90"
  let ?schedule = "[(''700000'', sailingAt 700000 1), (''703600'', sailingAt 703600 2)]"
  have route: "getRoute (scheduleByTerminal twoSailings) (numKey (TerminalID ?r))
                 (numKey (ArrivalTerminalID ?r)) = Some ?schedule"
    by (simp add: capacity_defs)
  have keyed: "keyedByTime ?schedule"
    by (simp add: keyedByTime_def capacity_defs)
  have earliest: "sortBy (keys ?schedule) = numKey (Departure ?r) # [''703600'']"
    by (simp add: capacity_defs)
  obtain c where first: "getPreviousCapacity twoSailings (TerminalID ?r) (ArrivalTerminalID ?r)
                           (Departure ?r) = None"
    and c: "map_of ?schedule (numKey (Departure ?r)) = Some c"
    and run: "recordCapacity 650000000 [?r] twoSailings =
             ([], twoSailings\<lparr>requests := requests twoSailings @ [API_TERMINALS_SPACE],
                    capacityHeap := capacityHeap twoSailings @ [model twoSailings ?r],
                    scheduleByTerminal :=
                      setDeep (scheduleByTerminal twoSailings) (numKey (TerminalID ?r))
                        (numKey (ArrivalTerminalID ?r)) (numKey (Departure ?r))
                        (c\<lparr>capacity := Some (length (capacityHeap twoSailings))\<rparr>),
                    db := AList.update (ArrivalTerminalID ?r, TerminalID ?r, Departure ?r)
                            (model twoSailings ?r) (db twoSailings)\<rparr>)"
    using first_sailing_no_supersession [OF route keyed earliest, of 650000000] by blast
  have "c = sailingAt 700000 1"
    using c by (simp add: readingFor_def numKey_def showNat.simps digitChar_def)
  with first run route keyed earliest show ?thesis
    by (simp add: readingFor_def numKey_def showNat.simps digitChar_def twoSailings_def
          setDeep_def setRoute_def getRoute_def)
qed

text \<open>
  C7. After the example long cycle, a reading for a sailing of the route at 703700
  seconds, which the schedule does not hold: attaching the capacity to the missing
  crossing throws a \<^verbatim>\<open>TypeError\<close>, the callback ends as a rejected promise, and nothing
  is attached or saved.
\<close>

theorem unmatched_reading_throws:
  "recordCapacity 650000000 [readingFor 703700 0 5 10] twoSailings
     = ([TypeError], twoSailings\<lparr>requests := requests twoSailings @ [API_TERMINALS_SPACE]\<rparr>)"
  by (simp add: capacity_defs)

text \<open>
  C1. After the example long cycle, a first capacity update gives the sailing at 700000
  seconds a capacity of 5 drive-up and 5 reservable spaces out of 10; at 650000 seconds of
  wall clock that sailing has not passed, and it is not full. A second update reads 0 and
  5 spaces out of 10 for the next sailing, at 703600 seconds, which is not empty. In that
  update \<^verbatim>\<open>getPreviousCapacity\<close> answers \<^verbatim>\<open>null\<close>, and afterwards the capacity of the
  sailing at 700000 seconds still shows 5 and 5, in memory and in the saved row.
\<close>

theorem previous_sailing_not_zeroed:
  "(case recordCapacity 650000000 [readingFor 700000 5 5 10] twoSailings of
      (errors1, s1) \<Rightarrow>
        (case recordCapacity 650000000 [readingFor 703600 0 5 10] s1 of
           (errors2, s2) \<Rightarrow>
             errors1 = [] \<and> errors2 = []
             \<and> map_option capacity (getDeep (scheduleByTerminal s1) ''1'' ''2'' ''700000'')
                 = Some (Some 0)
             \<and> hasPassed 650000000 (deref (capacityHeap s1) 0) = Some False
             \<and> \<not> isFull (capacityHeap s1 ! 0)
             \<and> \<not> isEmpty (model s1 (readingFor 703600 0 5 10))
             \<and> getPreviousCapacity s2 1 2 703600 = None
             \<and> map_option capacity (getDeep (scheduleByTerminal s2) ''1'' ''2'' ''700000'')
                 = Some (Some 0)
             \<and> map_option driveUpCapacity (deref (capacityHeap s2) 0) = Some 5
             \<and> map_option reservableCapacity (deref (capacityHeap s2) 0) = Some 5
             \<and> map_option driveUpCapacity (map_of (db s2) (2, 1, 700000)) = Some 5
             \<and> map_option reservableCapacity (map_of (db s2) (2, 1, 700000)) = Some 5))"
  by (simp add: capacity_defs)

subsection \<open>Vessels\<close>

lemma progress_no_vesels:
  assumes "progressWellFormed s"
  shows "map_of (updateProgress s) ''vesels'' = None"
proof -
  from assms have "map fst (updateProgress s) = [''schedule'', ''vessels'', ''terminals'']"
    by (simp add: progressWellFormed_def keys_def)
  then have "''vesels'' \<notin> set (map fst (updateProgress s))" by simp
  then show ?thesis by (simp add: map_of_eq_None_iff)
qed

lemma getProp_update:
  "getProp (AList.update k v obj) k' = (if k' = k then v else getProp obj k')"
  by (simp add: getProp_def update_conv')

text \<open>
  C8. For a vessel id present in the cache, \<^verbatim>\<open>getVessel(id, true)\<close> returns a new object,
  at an address that held nothing before the call: it has the properties of the cached
  vessel, except that \<^verbatim>\<open>departureDelta\<close> is \<^verbatim>\<open>null\<close>. The call leaves \<^verbatim>\<open>vesselsById\<close>,
  the cached vessel and every other object that existed as they were, and changes nothing
  else in the state.
\<close>

theorem getVessel_resetDelay_copy:
  assumes wf: "progressWellFormed s"
      and cached: "map_of (vesselsById s) (toKey ident) = Some a"
      and obj: "deref (vesselHeap s) a = Some cachedObj"
  shows "\<exists>copy s'. getVessel ident True s = Returned (Some copy, s')
           \<and> deref (vesselHeap s) copy = None
           \<and> deref (vesselHeap s') copy = Some (AList.update ''departureDelta'' JNull cachedObj)
           \<and> (\<forall>k. getProp (AList.update ''departureDelta'' JNull cachedObj) k =
                    (if k = ''departureDelta'' then JNull else getProp cachedObj k))
           \<and> vesselsById s' = vesselsById s
           \<and> deref (vesselHeap s') a = Some cachedObj
           \<and> (\<forall>b. b < length (vesselHeap s) \<longrightarrow> deref (vesselHeap s') b = deref (vesselHeap s) b)
           \<and> s' = s\<lparr>vesselHeap := vesselHeap s'\<rparr>"
proof -
  have a: "a < length (vesselHeap s)" and v: "vesselHeap s ! a = cachedObj"
    using obj by (auto simp: deref_def split: if_splits)
  have "getVessel ident True s =
          Returned (Some (length (vesselHeap s)),
            s\<lparr>vesselHeap := vesselHeap s @ [AList.update ''departureDelta'' JNull cachedObj]\<rparr>)"
    using cached obj
    by (simp add: getVessel_def await_def progress_no_vesels [OF wf] getVesselNow_def
          cloneDeep_def merge_def)
  then show ?thesis
    using a v by (simp add: deref_def nth_append getProp_update)
qed

theorem getVessel_resetDelay_copy_witness:
  "progressWellFormed tacomaCached
   \<and> map_of (vesselsById tacomaCached) (toKey (JNum 1)) = Some 0
   \<and> deref (vesselHeap tacomaCached) 0
       = Some [(''name'', JStr ''Tacoma''), (''departureDelta'', JNum 120)]
   \<and> (\<exists>copy s'. getVessel (JNum 1) True tacomaCached = Returned (Some copy, s')
         \<and> deref (vesselHeap tacomaCached) copy = None
         \<and> deref (vesselHeap s') copy
              = Some [(''name'', JStr ''Tacoma''), (''departureDelta'', JNull)]
         \<and> vesselsById s' = vesselsById tacomaCached
         \<and> deref (vesselHeap s') 0
              = Some [(''name'', JStr ''Tacoma''), (''departureDelta'', JNum 120)])"
proof -
  have wf: "progressWellFormed tacomaCached"
    by (simp add: progressWellFormed_def tacomaCached_def assignVessel_def initVessel_def
          initialState_def keys_def Let_def has_def)
  have cached: "map_of (vesselsById tacomaCached) (toKey (JNum 1)) = Some 0"
    by (simp add: tacomaCached_def assignVessel_def initVessel_def initialState_def Let_def
          has_def numKey_def showNat.simps digitChar_def)
  have obj: "deref (vesselHeap tacomaCached) 0
       = Some [(''name'', JStr ''Tacoma''), (''departureDelta'', JNum 120)]"
    by (simp add: tacomaCached_def assignVessel_def initVessel_def initialState_def Let_def
          has_def numKey_def showNat.simps digitChar_def deref_def assign_def)
  show ?thesis
    using getVessel_resetDelay_copy [OF wf cached obj] wf cached obj by auto
qed

lemmas timing_defs = recordTiming_def timingCallback_def assignVessel_def initVessel_def
  twoSailings_def berth_def has_def numKey_def showNat.simps digitChar_def
  cachedVessel_def vesselProp_def deref_def getProp_def assign_def timestamp_def Let_def

text \<open>
  C2. After the example long cycle, three timing polls of vessel 1: not at dock at 1000,
  at dock at 2000, still at dock at 3000. The second poll, where the vessel goes from not
  at dock to at dock, stamps \<^verbatim>\<open>dockedTime\<close> with the wall clock, 2000. The third poll,
  with the vessel still at dock, leaves \<^verbatim>\<open>dockedTime\<close> \<^verbatim>\<open>null\<close>: the stamp of the second
  poll is gone.
\<close>

theorem docked_time_cleared_while_docked:
  "(case recordTiming 1000 [berth False] twoSailings of
      Inl _ \<Rightarrow> False
    | Inr s1 \<Rightarrow>
        vesselProp s1 1 ''isAtDock'' = JBool False
        \<and> (case recordTiming 2000 [berth True] s1 of
             Inl _ \<Rightarrow> False
           | Inr s2 \<Rightarrow>
               vesselProp s2 1 ''isAtDock'' = JBool True
               \<and> vesselProp s2 1 ''dockedTime'' = JDate 2000
               \<and> (case recordTiming 3000 [berth True] s2 of
                    Inl _ \<Rightarrow> False
                  | Inr s3 \<Rightarrow>
                      vesselProp s3 1 ''isAtDock'' = JBool True
                      \<and> vesselProp s3 1 ''dockedTime'' = JNull)))"
  by (simp add: timing_defs)

subsection \<open>Reads during a refresh\<close>

text \<open>
  C9. After the example long cycle, while the promise of a new vessels refresh is pending,
  \<^verbatim>\<open>getVessels\<close> and \<^verbatim>\<open>getVessel\<close> return at once with what the cache holds: they await
  the property \<^verbatim>\<open>vesels\<close>, which \<^verbatim>\<open>updateProgress\<close> does not have. The accessors of the
  other two families stay suspended while the promise of their family is pending.
\<close>

theorem vessel_reads_do_not_wait:
  "map_of (updateProgress (inFlight ''vessels'' twoSailings)) ''vessels'' = Some Pending
   \<and> getVessels (inFlight ''vessels'' twoSailings) = Returned [(''1'', 0)]
   \<and> getVessel (JNum 1) False (inFlight ''vessels'' twoSailings)
       = Returned (Some 0, inFlight ''vessels'' twoSailings)
   \<and> getTerminals (inFlight ''terminals'' twoSailings) = Suspended
   \<and> getTerminal (JNum 1) (inFlight ''terminals'' twoSailings) = Suspended
   \<and> getSchedule (JNum 1) (JNum 2) (inFlight ''schedule'' twoSailings) = Suspended
   \<and> getMates (inFlight ''schedule'' twoSailings) = Suspended"
  by (simp add: getVessels_def getVessel_def getVesselNow_def getTerminals_def getTerminal_def
        getSchedule_def getMates_def await_def inFlight_def twoSailings_def numKey_def
        showNat.simps digitChar_def)

end
